theory Spec2Isabelle
  imports Complex_Main "HOL-Library.Word"
begin

section \<open>Speech synthesis: container header, stream composer, adapters, selector\<close>

text \<open>
  A shallow embedding of the speech service (\<^verbatim>\<open>prependWavHeader\<close>,
  \<^verbatim>\<open>getVoiceSettings\<close>, \<^verbatim>\<open>textToSpeech\<close>, \<^verbatim>\<open>processVitsAudio\<close>,
  \<^verbatim>\<open>generateVitsAudio\<close>, \<^verbatim>\<open>SpeechService.generate\<close>).
  Buffers are byte lists, thrown exceptions are the left summand of a sum type, and the
  outside world (HTTP transport, synthesis engine, logger) is an explicit environment
  together with a trace that every operation threads through.
\<close>

subsection \<open>Bytes, numbers and errors\<close>

type_synonym byte = "8 word"

text \<open>A JavaScript number as far as this code uses one: an integer, or \<^verbatim>\<open>NaN\<close>.\<close>

datatype number = Num int | NaN

text \<open>
  Thrown values. \<open>Error m\<close> is \<^verbatim>\<open>new Error(m)\<close> raised by the service itself,
  \<open>TypeError\<close> is a property access on \<^verbatim>\<open>null\<close> or \<^verbatim>\<open>undefined\<close> or the
  \<^verbatim>\<open>in\<close> operator applied to a value that is not an object, \<open>RangeError\<close> is a typed
  array constructed over a buffer whose byte length its element size does not divide,
  \<open>Thrown m\<close> is whatever a collaborator (transport, engine, configuration validator)
  raised, and \<open>InvalidDimension\<close> is the header builder rejecting its arguments.
\<close>

datatype error = Error string | TypeError | RangeError | Thrown string | InvalidDimension

subsection \<open>Container header\<close>

definition ascii :: "string \<Rightarrow> byte list" where
  "ascii s = map (\<lambda>c. of_nat (of_char c)) s"

definition u16le :: "int \<Rightarrow> byte list" where
  "u16le n = [word_of_int n, word_of_int (n div 256)]"

definition u32le :: "int \<Rightarrow> byte list" where
  "u32le n = [word_of_int n, word_of_int (n div 256),
              word_of_int (n div 65536), word_of_int (n div 16777216)]"

text \<open>
  Modelled from the spec: \<^verbatim>\<open>getWavHeader\<close> is imported from \<^verbatim>\<open>./audioUtils.ts\<close>,
  which is not among the sources. The layout is the one of section 4.1 (Container
  Framer): \<^verbatim>\<open>RIFF\<close>, \<open>36 + payloadByteLength\<close>, \<^verbatim>\<open>WAVE\<close>, \<^verbatim>\<open>fmt \<close>, \<open>16\<close>,
  format tag \<open>1\<close>, channel count, sample rate, byte rate, block align, bit depth,
  \<^verbatim>\<open>data\<close>, payload length, all little-endian; its only failure mode is rejecting
  non-positive dimensions (sample rate, channel count, bit depth; \<^verbatim>\<open>NaN\<close> is not
  positive). A field keeps the low bytes of its value.
\<close>

definition getWavHeader :: "nat \<Rightarrow> number \<Rightarrow> int \<Rightarrow> int \<Rightarrow> error + byte list" where
  "getWavHeader audioLength sampleRate channelCount bitsPerSample =
     (case sampleRate of
        NaN \<Rightarrow> Inl InvalidDimension
      | Num rate \<Rightarrow>
          if rate \<le> 0 \<or> channelCount \<le> 0 \<or> bitsPerSample \<le> 0 then Inl InvalidDimension
          else Inr (ascii ''RIFF'' @ u32le (36 + int audioLength) @ ascii ''WAVE''
                    @ ascii ''fmt '' @ u32le 16 @ u16le 1 @ u16le channelCount
                    @ u32le rate @ u32le (rate * channelCount * bitsPerSample div 8)
                    @ u16le (channelCount * bitsPerSample div 8) @ u16le bitsPerSample
                    @ ascii ''data'' @ u32le (int audioLength)))"

subsection \<open>Stream composer\<close>

text \<open>
  A byte source is the list of the chunks its \<^verbatim>\<open>data\<close> events deliver, in order,
  followed by its \<^verbatim>\<open>end\<close> event; a chunk may be empty. The bytes a stream carries
  are the concatenation of its chunks. \<open>push\<close> is \<^verbatim>\<open>Readable.push\<close> of a byte-mode
  stream: a zero-length chunk is not queued and causes no \<^verbatim>\<open>data\<close> event.
  \<^verbatim>\<open>Readable.from\<close> of a buffer delivers the buffer as one chunk, also when it is
  empty.
  The composer's state is the flag \<^verbatim>\<open>pushedHeader\<close> and the \<^verbatim>\<open>PassThrough\<close>:
  the chunks queued in it so far and whether it has been ended.
\<close>

type_synonym chunks = "byte list list"

definition push :: "chunks \<Rightarrow> byte list \<Rightarrow> chunks" where
  "push stream chunk = (if chunk = [] then stream else stream @ [chunk])"

definition Readable_from :: "byte list \<Rightarrow> chunks" where
  "Readable_from b = [b]"

record composer =
  pushedHeader :: bool
  passThrough :: chunks
  ended :: bool

definition on_data :: "byte list \<Rightarrow> composer \<Rightarrow> byte list \<Rightarrow> composer" where
  "on_data wavHeader st data =
     (let st1 = (if \<not> pushedHeader st
                 then st\<lparr>passThrough := push (passThrough st) wavHeader, pushedHeader := True\<rparr>
                 else st)
      in st1\<lparr>passThrough := push (passThrough st1) data\<rparr>)"

definition on_end :: "composer \<Rightarrow> composer" where
  "on_end st = st\<lparr>ended := True\<rparr>"

fun deliver :: "byte list \<Rightarrow> composer \<Rightarrow> chunks \<Rightarrow> composer" where
  "deliver wavHeader st [] = on_end st"
| "deliver wavHeader st (data # rest) = deliver wavHeader (on_data wavHeader st data) rest"

definition prependWavHeader ::
  "chunks \<Rightarrow> nat \<Rightarrow> number \<Rightarrow> int \<Rightarrow> int \<Rightarrow> error + chunks" where
  "prependWavHeader readable audioLength sampleRate channelCount bitsPerSample =
     (case getWavHeader audioLength sampleRate channelCount bitsPerSample of
        Inl e \<Rightarrow> Inl e
      | Inr wavHeader \<Rightarrow>
          Inr (passThrough
                 (deliver wavHeader
                    \<lparr>pushedHeader = False, passThrough = [], ended = False\<rparr> readable)))"

subsection \<open>Settings\<close>

text \<open>
  A setting or an optional character field is \<open>None\<close> when it is \<^verbatim>\<open>null\<close> or
  \<^verbatim>\<open>undefined\<close>. \<open>truthy\<close> is JavaScript's truthiness of such a value (the empty
  string is falsy), \<open>js_or\<close> is \<^verbatim>\<open>a || b\<close>, and \<open>js_or_default\<close> is
  \<^verbatim>\<open>a || "literal"\<close>.
\<close>

definition truthy :: "string option \<Rightarrow> bool" where
  "truthy v = (case v of None \<Rightarrow> False | Some s \<Rightarrow> s \<noteq> [])"

definition js_or :: "string option \<Rightarrow> string option \<Rightarrow> string option" where
  "js_or a b = (if truthy a then a else b)"

definition js_or_default :: "string option \<Rightarrow> string \<Rightarrow> string" where
  "js_or_default a d = (case a of None \<Rightarrow> d | Some s \<Rightarrow> if s = [] then d else s)"

record runtime =
  getSetting :: "string \<Rightarrow> string option"
  voice_elevenlabs_voiceId :: "string option"
  voice_elevenlabs_model :: "string option"
  voice_elevenlabs_stability :: "string option"
  voice_model :: "string option"
  voice_url :: "string option"

record voice_settings =
  elevenlabsVoiceId :: "string option"
  elevenlabsModel :: string
  elevenlabsStability :: string
  vitsVoice :: string
  useVits :: bool

definition getVoiceSettings :: "runtime \<Rightarrow> voice_settings" where
  "getVoiceSettings runtime =
     (let hasElevenLabs = truthy (getSetting runtime ''ELEVENLABS_XI_API_KEY'');
          useVits = \<not> hasElevenLabs
      in \<lparr>elevenlabsVoiceId =
            js_or (voice_elevenlabs_voiceId runtime) (getSetting runtime ''ELEVENLABS_VOICE_ID''),
          elevenlabsModel =
            js_or_default
              (js_or (voice_elevenlabs_model runtime) (getSetting runtime ''ELEVENLABS_MODEL_ID''))
              ''eleven_monolingual_v1'',
          elevenlabsStability =
            js_or_default
              (js_or (voice_elevenlabs_stability runtime)
                     (getSetting runtime ''ELEVENLABS_VOICE_STABILITY''))
              ''0.5'',
          vitsVoice =
            js_or_default
              (js_or (js_or (voice_model runtime) (voice_url runtime))
                     (getSetting runtime ''VITS_VOICE''))
              ''en_US-hfc_female-medium'',
          useVits = useVits\<rparr>)"

subsection \<open>Strings and number parsing\<close>

definition startsWith :: "string \<Rightarrow> string \<Rightarrow> bool" where
  "startsWith s p = (take (length p) s = p)"

definition substring :: "nat \<Rightarrow> string \<Rightarrow> string" where
  "substring n s = drop n s"

definition is_space :: "char \<Rightarrow> bool" where
  "is_space c = (of_char c \<in> {9, 10, 11, 12, 13, 32 :: nat})"

definition digit_value :: "char \<Rightarrow> nat option" where
  "digit_value c =
     (let k = (of_char c :: nat)
      in if 48 \<le> k \<and> k \<le> 57 then Some (k - 48)
         else if 97 \<le> k \<and> k \<le> 102 then Some (k - 87)
         else if 65 \<le> k \<and> k \<le> 70 then Some (k - 55)
         else None)"

definition is_digit :: "nat \<Rightarrow> char \<Rightarrow> bool" where
  "is_digit radix c = (case digit_value c of None \<Rightarrow> False | Some d \<Rightarrow> d < radix)"

definition digits_value :: "nat \<Rightarrow> string \<Rightarrow> int" where
  "digits_value radix ds =
     foldl (\<lambda>acc c. acc * int radix + int (case digit_value c of None \<Rightarrow> 0 | Some d \<Rightarrow> d)) 0 ds"

text \<open>
  \<^verbatim>\<open>parseInt(s)\<close> without a radix: leading white space is skipped, one sign is read,
  a \<^verbatim>\<open>0x\<close> or \<^verbatim>\<open>0X\<close> prefix selects radix 16, and the longest run of digits is the
  value; no digit gives \<^verbatim>\<open>NaN\<close>; what follows the digits is ignored. The model is
  exact; JavaScript rounds a value beyond \<open>2 ^ 53\<close> to the nearest double.
\<close>

definition parseInt :: "string \<Rightarrow> number" where
  "parseInt s =
     (let t = dropWhile is_space s;
          negative = (t \<noteq> [] \<and> hd t = CHR ''-'');
          u = (if t \<noteq> [] \<and> (hd t = CHR ''-'' \<or> hd t = CHR ''+'') then tl t else t);
          hex = (take 2 u = ''0x'' \<or> take 2 u = ''0X'');
          radix = (if hex then 16 else 10);
          v = (if hex then drop 2 u else u);
          ds = takeWhile (is_digit radix) v
      in if ds = [] then NaN
         else Num ((if negative then - 1 else 1) * digits_value radix ds))"

fun string_of_nat :: "nat \<Rightarrow> string" where
  "string_of_nat n =
     (if n < 10 then [''0123456789'' ! n]
      else string_of_nat (n div 10) @ [''0123456789'' ! (n mod 10)])"

declare string_of_nat.simps [simp del]

subsection \<open>Sample conversion\<close>

text \<open>
  An element of a \<^verbatim>\<open>Float32Array\<close> is a finite binary fraction, or \<^verbatim>\<open>NaN\<close> or an
  infinity. The product of a finite 32-bit float (24 significant bits) with \<open>32767\<close>
  (15 bits) is exact in double precision, so \<^verbatim>\<open>floatArray[i] * 32767\<close> is the
  rational product. \<^verbatim>\<open>Math.round\<close> returns the nearest integer, a tie going up.
  Storing into an \<^verbatim>\<open>Int16Array\<close> element keeps the value modulo \<open>2 ^ 16\<close>, read as
  two's complement; \<^verbatim>\<open>NaN\<close> and the infinities are stored as \<open>0\<close>.
\<close>

datatype float32 = Finite rat | NonFinite

definition times_32767 :: "float32 \<Rightarrow> float32" where
  "times_32767 x = (case x of Finite q \<Rightarrow> Finite (q * 32767) | NonFinite \<Rightarrow> NonFinite)"

definition Math_round :: "float32 \<Rightarrow> number" where
  "Math_round x = (case x of Finite q \<Rightarrow> Num \<lfloor>q + 1 / 2\<rfloor> | NonFinite \<Rightarrow> NaN)"

definition store_Int16 :: "number \<Rightarrow> 16 word" where
  "store_Int16 v = (case v of Num n \<Rightarrow> word_of_int n | NaN \<Rightarrow> 0)"

primrec fill_pcmBuffer :: "float32 list \<Rightarrow> 16 word list" where
  "fill_pcmBuffer [] = []"
| "fill_pcmBuffer (x # floatArray) =
     store_Int16 (Math_round (times_32767 x)) # fill_pcmBuffer floatArray"

text \<open>The bytes behind an \<^verbatim>\<open>Int16Array\<close>: two per element, low byte first.\<close>

primrec Int16Array_buffer :: "16 word list \<Rightarrow> byte list" where
  "Int16Array_buffer [] = []"
| "Int16Array_buffer (w # ws) = ucast w # ucast (drop_bit 8 w) # Int16Array_buffer ws"

subsection \<open>Local adapter\<close>

text \<open>
  An \<^verbatim>\<open>ArrayBuffer\<close>, as a \<^verbatim>\<open>Float32Array\<close> sees it: the 32-bit floats that its bytes
  spell, four bytes each, and the number of bytes left over at its end (none when the
  byte length is a multiple of 4). A \<^verbatim>\<open>Float32Array\<close> is a view: its backing buffer
  (\<^verbatim>\<open>.buffer\<close>), its byte offset into it (a multiple of 4) and its length in elements.
  \<open>samples\<close> are the elements of the view itself. An array allocated on its own spans
  its whole buffer; \<^verbatim>\<open>subarray\<close> gives a view of a part.
\<close>

record ArrayBuffer =
  float32_slots :: "float32 list"
  trailing_bytes :: nat

record Float32Array =
  backing_buffer :: ArrayBuffer
  byteOffset :: nat
  array_length :: nat



text \<open>
  \<^verbatim>\<open>new Float32Array(arrayBuffer)\<close>: a view of the whole buffer, refused when the byte
  length is not a multiple of 4. \<^verbatim>\<open>Buffer.from(arrayBuffer)\<close> shares the memory of its
  argument, so \<^verbatim>\<open>Buffer.from(x.buffer).buffer\<close> is \<^verbatim>\<open>x.buffer\<close> again.
\<close>

definition new_Float32Array :: "ArrayBuffer \<Rightarrow> error + float32 list" where
  "new_Float32Array b = (if trailing_bytes b \<noteq> 0 then Inl RangeError else Inr (float32_slots b))"

text \<open>
  What the engine hands back: a \<^verbatim>\<open>Buffer\<close>, or some other object, of which the code
  looks at the properties \<^verbatim>\<open>audioChannels\<close> and \<^verbatim>\<open>sampleRate\<close> only, in this
  order (\<open>None\<close>: the object has no such property), or a value that is not an object
  (\<^verbatim>\<open>null\<close>, \<^verbatim>\<open>undefined\<close>, a primitive), to which \<^verbatim>\<open>in\<close> cannot be applied.
  Reading element \<open>0\<close> of an empty channel list gives \<^verbatim>\<open>undefined\<close>, whose
  \<^verbatim>\<open>buffer\<close> property cannot be read.
\<close>

datatype audio =
    Buffer "byte list"
  | Object "Float32Array list option" "number option"
  | NotAnObject

definition processVitsAudio :: "audio \<Rightarrow> error + chunks" where
  "processVitsAudio audio =
     (case audio of
        Buffer b \<Rightarrow> Inr (Readable_from b)
      | Object (Some channels) (Some sampleRate) \<Rightarrow>
          (case channels of
             [] \<Rightarrow> Inl TypeError
           | channel # _ \<Rightarrow>
               (case new_Float32Array (backing_buffer channel) of
                  Inl e \<Rightarrow> Inl e
                | Inr floatArray \<Rightarrow>
                    (let pcmBuffer = fill_pcmBuffer floatArray
                     in case getWavHeader (length pcmBuffer * 2) sampleRate 1 16 of
                          Inl e \<Rightarrow> Inl e
                        | Inr wavHeaderBuffer \<Rightarrow>
                            Inr (Readable_from
                                   (wavHeaderBuffer @ Int16Array_buffer pcmBuffer)))))
      | Object _ _ \<Rightarrow> Inl (Error ''Unsupported audio format'')
      | NotAnObject \<Rightarrow> Inl TypeError)"

subsection \<open>The outside world\<close>

text \<open>
  \<^verbatim>\<open>validateNodeConfig\<close> comes from \<^verbatim>\<open>../environment.ts\<close>, which is not among the
  sources, so it is a parameter: \<open>Some e\<close> when it throws \<open>e\<close>. \<open>fetch\<close> and
  \<open>synthesize\<close> give the outcome of the \<open>n\<close>-th HTTP call and of the \<open>n\<close>-th engine
  call (counted from \<open>0\<close>), so that a repeated call may fare differently. A response has
  been received whole: \<open>body_text\<close> is what \<^verbatim>\<open>response.text()\<close> yields and
  \<open>arrayBuffer\<close> what \<^verbatim>\<open>response.arrayBuffer()\<close> yields.
\<close>

record request =
  url :: string
  xi_api_key :: "string option"
  model_id :: "string option"
  request_text :: string
  similarity_boost :: "string option"
  stability :: "string option"
  style :: "string option"
  use_speaker_boost :: "string option"

record response =
  ok :: bool
  status :: nat
  body_text :: string
  arrayBuffer :: "byte list"

record env =
  validateNodeConfig :: "runtime \<Rightarrow> error option"
  fetch :: "nat \<Rightarrow> request \<Rightarrow> error + response"
  synthesize :: "nat \<Rightarrow> string \<Rightarrow> string \<Rightarrow> error + audio"

text \<open>
  The trace counts the invocations of the remote adapter, of the transport and of the
  local adapter, and keeps what was written to the error log (message and error).
  Debug logging is left out.
\<close>

record trace =
  remote_calls :: nat
  fetch_calls :: nat
  local_calls :: nat
  error_log :: "(string \<times> error) list"

definition log_error :: "string \<Rightarrow> error \<Rightarrow> trace \<Rightarrow> trace" where
  "log_error message e tr = tr\<lparr>error_log := error_log tr @ [(message, e)]\<rparr>"

text \<open>A \<^verbatim>\<open>null\<close> setting inside a template literal prints as \<^verbatim>\<open>null\<close>.\<close>

definition template :: "string option \<Rightarrow> string" where
  "template v = (case v of None \<Rightarrow> ''null'' | Some s \<Rightarrow> s)"

subsection \<open>Remote adapter\<close>

definition build_request :: "runtime \<Rightarrow> string \<Rightarrow> request" where
  "build_request runtime txt =
     \<lparr>url = ''https://api.elevenlabs.io/v1/text-to-speech/''
             @ template (elevenlabsVoiceId (getVoiceSettings runtime))
             @ ''/stream?optimize_streaming_latency=''
             @ template (getSetting runtime ''ELEVENLABS_OPTIMIZE_STREAMING_LATENCY'')
             @ ''&output_format='' @ template (getSetting runtime ''ELEVENLABS_OUTPUT_FORMAT''),
      xi_api_key = getSetting runtime ''ELEVENLABS_XI_API_KEY'',
      model_id = getSetting runtime ''ELEVENLABS_MODEL_ID'',
      request_text = txt,
      similarity_boost = getSetting runtime ''ELEVENLABS_VOICE_SIMILARITY_BOOST'',
      stability = getSetting runtime ''ELEVENLABS_VOICE_STABILITY'',
      style = getSetting runtime ''ELEVENLABS_VOICE_STYLE'',
      use_speaker_boost = getSetting runtime ''ELEVENLABS_VOICE_USE_SPEAKER_BOOST''\<rparr>"

text \<open>What \<^verbatim>\<open>textToSpeech\<close> does with a response once \<^verbatim>\<open>fetch\<close> has returned one.\<close>

definition on_response :: "runtime \<Rightarrow> response \<Rightarrow> error + chunks" where
  "on_response runtime response =
     (if \<not> ok response
      then Inl (Error (''Received status '' @ string_of_nat (status response)
                       @ '' from Eleven Labs API: '' @ body_text response))
      else
        (let buffer = arrayBuffer response;
             readable = push [] buffer
         in case getSetting runtime ''ELEVENLABS_OUTPUT_FORMAT'' of
              None \<Rightarrow> Inl TypeError
            | Some outputFormat \<Rightarrow>
                if startsWith outputFormat ''pcm_''
                then prependWavHeader readable (length buffer)
                       (parseInt (substring 4 outputFormat)) 1 16
                else Inr readable))"

definition textToSpeech ::
  "env \<Rightarrow> runtime \<Rightarrow> string \<Rightarrow> trace \<Rightarrow> (error + chunks) \<times> trace" where
  "textToSpeech env runtime txt tr0 =
     (let tr = tr0\<lparr>remote_calls := Suc (remote_calls tr0)\<rparr>
      in case validateNodeConfig env runtime of
           Some e \<Rightarrow> (Inl e, tr)
         | None \<Rightarrow>
             (let tr1 = tr\<lparr>fetch_calls := Suc (fetch_calls tr)\<rparr>;
                  result =
                    (case fetch env (fetch_calls tr) (build_request runtime txt) of
                       Inl e \<Rightarrow> Inl e
                     | Inr response \<Rightarrow> on_response runtime response)
              in case result of
                   Inl e \<Rightarrow> (Inl e, log_error ''ElevenLabs API error:'' e tr1)
                 | Inr readable \<Rightarrow> (Inr readable, tr1)))"

subsection \<open>Local adapter invocation and the selector\<close>

definition generateVitsAudio ::
  "env \<Rightarrow> runtime \<Rightarrow> string \<Rightarrow> trace \<Rightarrow> (error + chunks) \<times> trace" where
  "generateVitsAudio env runtime txt tr =
     (let tr1 = tr\<lparr>local_calls := Suc (local_calls tr)\<rparr>
      in case synthesize env (local_calls tr) txt (vitsVoice (getVoiceSettings runtime)) of
           Inl e \<Rightarrow> (Inl e, tr1)
         | Inr audio \<Rightarrow> (processVitsAudio audio, tr1))"

definition generate ::
  "env \<Rightarrow> runtime \<Rightarrow> string \<Rightarrow> trace \<Rightarrow> (error + chunks) \<times> trace" where
  "generate env runtime txt tr =
     (let attempt =
            (if useVits (getVoiceSettings runtime)
                \<or> \<not> truthy (getSetting runtime ''ELEVENLABS_XI_API_KEY'')
             then generateVitsAudio env runtime txt tr
             else textToSpeech env runtime txt tr)
      in case fst attempt of
           Inr stream \<Rightarrow> attempt
         | Inl e \<Rightarrow>
             generateVitsAudio env runtime txt
               (log_error ''Falling back to VITS due to error:'' e
                  (log_error ''Speech generation error:'' e (snd attempt))))"

subsection \<open>Example configurations\<close>

text \<open>
  Concrete runtimes, transports and engines on which the properties below are
  evaluated: a runtime is given by its settings (no character voice settings), an
  environment by the outcome of validation, the response to every HTTP call and the
  outcome of each engine call.
\<close>

definition trace0 :: trace where
  "trace0 = \<lparr>remote_calls = 0, fetch_calls = 0, local_calls = 0, error_log = []\<rparr>"

definition example_runtime :: "(string \<times> string) list \<Rightarrow> runtime" where
  "example_runtime kvs =
     \<lparr>getSetting = map_of kvs, voice_elevenlabs_voiceId = None, voice_elevenlabs_model = None,
      voice_elevenlabs_stability = None, voice_model = None, voice_url = None\<rparr>"

definition example_env ::
  "error option \<Rightarrow> (error + response) \<Rightarrow> (nat \<Rightarrow> error + audio) \<Rightarrow> env" where
  "example_env v f s =
     \<lparr>validateNodeConfig = (\<lambda>_. v), fetch = (\<lambda>_ _. f), synthesize = (\<lambda>n _ _. s n)\<rparr>"

definition resp401 :: response where
  "resp401 = \<lparr>ok = False, status = 401, body_text = ''unauthorized'', arrayBuffer = []\<rparr>"

definition resp200 :: "byte list \<Rightarrow> response" where
  "resp200 body = \<lparr>ok = True, status = 200, body_text = [], arrayBuffer = body\<rparr>"

text \<open>An engine whose first call fails and whose later calls return an encoded buffer.\<close>

definition flaky :: "nat \<Rightarrow> error + audio" where
  "flaky n = (if n = 0 then Inl (Thrown ''engine failure'') else Inr (Buffer [1, 2, 3]))"



lemmas ev = example_env_def example_runtime_def trace0_def resp401_def resp200_def
  textToSpeech_def generateVitsAudio_def on_response_def build_request_def log_error_def
  getVoiceSettings_def truthy_def js_or_def js_or_default_def template_def
  processVitsAudio_def Readable_from_def push_def Let_def string_of_nat.simps

section \<open>Properties\<close>

subsection \<open>Stream composer\<close>

lemma getWavHeader_length: "getWavHeader l r c b = Inr h \<Longrightarrow> length h = 44"
  by (auto simp: getWavHeader_def ascii_def u16le_def u32le_def split: number.splits if_splits)

lemma getWavHeader_24000:
  "getWavHeader n (Num 24000) 1 16 =
     Inr (ascii ''RIFF'' @ u32le (36 + int n) @ ascii ''WAVEfmt ''
          @ [16, 0, 0, 0, 1, 0, 1, 0, 192, 93, 0, 0, 128, 187, 0, 0, 2, 0, 16, 0]
          @ ascii ''data'' @ u32le (int n))"
  by (simp add: getWavHeader_def ascii_def u16le_def u32le_def)

lemma deliver_pushed:
  "pushedHeader st \<Longrightarrow>
   passThrough (deliver h st rs) = passThrough st @ filter (\<lambda>c. c \<noteq> []) rs"
  by (induction rs arbitrary: st) (simp_all add: on_end_def on_data_def push_def)

lemma deliver_first:
  assumes "\<not> pushedHeader st" and "rs \<noteq> []" and "h \<noteq> []"
  shows "passThrough (deliver h st rs) = passThrough st @ h # filter (\<lambda>c. c \<noteq> []) rs"
proof (cases rs)
  case Nil
  with assms show ?thesis by simp
next
  case (Cons d rest)
  have "pushedHeader (on_data h st d)"
    using assms(1) by (simp add: on_data_def)
  then have "passThrough (deliver h (on_data h st d) rest)
             = passThrough (on_data h st d) @ filter (\<lambda>c. c \<noteq> []) rest"
    by (rule deliver_pushed)
  moreover have "passThrough (on_data h st d) = passThrough st @ h # filter (\<lambda>c. c \<noteq> []) [d]"
    using assms(1,3) by (simp add: on_data_def push_def)
  ultimately show ?thesis using Cons by simp
qed

lemma prependWavHeader_data:
  assumes "getWavHeader l r c b = Inr h" and "readable \<noteq> []"
  shows "prependWavHeader readable l r c b = Inr (h # filter (\<lambda>c. c \<noteq> []) readable)"
proof -
  have "h \<noteq> []" using getWavHeader_length [OF assms(1)] by auto
  then show ?thesis
    using assms
      deliver_first [of "\<lparr>pushedHeader = False, passThrough = [], ended = False\<rparr>" readable h]
    by (simp add: prependWavHeader_def)
qed

lemma concat_nonempty_chunks: "concat (filter (\<lambda>c. c \<noteq> []) xs) = concat xs"
  by (induction xs) simp_all

text \<open>
  C10. A source that ends without a \<^verbatim>\<open>data\<close> event gives an empty composed stream:
  nothing is queued in the \<^verbatim>\<open>PassThrough\<close>, not even the header that was built.
\<close>

theorem prependWavHeader_no_data:
  assumes "getWavHeader l r c b = Inr h"
  shows "prependWavHeader [] l r c b = Inr []"
  using assms by (simp add: prependWavHeader_def on_end_def)

theorem prependWavHeader_no_data_witness:
  "getWavHeader 0 (Num 24000) 1 16 =
     Inr (ascii ''RIFF'' @ u32le 36 @ ascii ''WAVEfmt ''
          @ [16, 0, 0, 0, 1, 0, 1, 0, 192, 93, 0, 0, 128, 187, 0, 0, 2, 0, 16, 0]
          @ ascii ''data'' @ u32le 0)
   \<and> prependWavHeader [] 0 (Num 24000) 1 16 = Inr []"
proof -
  have h: "getWavHeader 0 (Num 24000) 1 16 =
     Inr (ascii ''RIFF'' @ u32le 36 @ ascii ''WAVEfmt ''
          @ [16, 0, 0, 0, 1, 0, 1, 0, 192, 93, 0, 0, 128, 187, 0, 0, 2, 0, 16, 0]
          @ ascii ''data'' @ u32le 0)"
    using getWavHeader_24000 [of 0] by simp
  show ?thesis using h prependWavHeader_no_data [OF h] by simp
qed

text \<open>
  C3, as stated, fails: for the source that ends without a \<^verbatim>\<open>data\<close> event the composed
  bytes are not the header followed by the (empty) source bytes, they are empty.
\<close>

theorem prependWavHeader_every_source_counterexample:
  "map_sum id concat (prependWavHeader [] 0 (Num 24000) 1 16)
     \<noteq> map_sum id (\<lambda>h. h @ concat []) (getWavHeader 0 (Num 24000) 1 16)"
  by (simp add: prependWavHeader_def on_end_def getWavHeader_def ascii_def u16le_def u32le_def)

text \<open>
  C3, amended. For every source that delivers at least one \<^verbatim>\<open>data\<close> chunk, the composed
  stream is the 44-byte header followed by every byte of the source in source order:
  its chunks are the header and then the non-empty chunks of the source, each once and
  in order, with nothing after the last one.
\<close>

theorem prependWavHeader_header_then_source:
  assumes "getWavHeader l r c b = Inr h" and "readable \<noteq> []"
  shows "prependWavHeader readable l r c b = Inr (h # filter (\<lambda>c. c \<noteq> []) readable)
         \<and> concat (h # filter (\<lambda>c. c \<noteq> []) readable) = h @ concat readable
         \<and> length h = 44"
  using prependWavHeader_data [OF assms] getWavHeader_length [OF assms(1)]
  by (simp add: concat_nonempty_chunks)

theorem prependWavHeader_header_then_source_witness:
  "prependWavHeader [[1, 2], [], [3]] 3 (Num 24000) 1 16 =
     Inr [ascii ''RIFF'' @ u32le 39 @ ascii ''WAVEfmt ''
          @ [16, 0, 0, 0, 1, 0, 1, 0, 192, 93, 0, 0, 128, 187, 0, 0, 2, 0, 16, 0]
          @ ascii ''data'' @ u32le 3, [1, 2], [3]]"
proof -
  have h: "getWavHeader 3 (Num 24000) 1 16 =
     Inr (ascii ''RIFF'' @ u32le 39 @ ascii ''WAVEfmt ''
          @ [16, 0, 0, 0, 1, 0, 1, 0, 192, 93, 0, 0, 128, 187, 0, 0, 2, 0, 16, 0]
          @ ascii ''data'' @ u32le 3)"
    using getWavHeader_24000 [of 3] by simp
  have ne: "[[1, 2], [], [3 :: byte]] \<noteq> []" by simp
  show ?thesis using prependWavHeader_header_then_source [OF h ne] by simp
qed

text \<open>
  C4. For a source that delivers at least one chunk, the header is queued exactly once
  and first, also when zero-length chunks come before the real data: what follows the
  header is the non-empty chunks of the source and nothing else. The composed bytes
  depend on the concatenation of the source's bytes only, not on the chunking.
\<close>

theorem prependWavHeader_header_once:
  assumes "getWavHeader l r c b = Inr h"
    and "readable \<noteq> []" and "readable' \<noteq> []"
    and "concat readable = concat readable'"
  shows "prependWavHeader (replicate n [] @ readable) l r c b
           = Inr (h # filter (\<lambda>c. c \<noteq> []) readable)
         \<and> map_sum id concat (prependWavHeader readable l r c b)
           = map_sum id concat (prependWavHeader readable' l r c b)"
proof -
  have "replicate n [] @ readable \<noteq> []" using assms(2) by simp
  from prependWavHeader_data [OF assms(1) this]
  have first: "prependWavHeader (replicate n [] @ readable) l r c b
                 = Inr (h # filter (\<lambda>c. c \<noteq> []) readable)"
    by simp
  have "map_sum id concat (prependWavHeader readable l r c b) = Inr (h @ concat readable)"
    using prependWavHeader_data [OF assms(1,2)] by (simp add: concat_nonempty_chunks)
  moreover
  have "map_sum id concat (prependWavHeader readable' l r c b) = Inr (h @ concat readable')"
    using prependWavHeader_data [OF assms(1,3)] by (simp add: concat_nonempty_chunks)
  ultimately show ?thesis using first assms(4) by simp
qed

theorem prependWavHeader_header_once_witness:
  "prependWavHeader [[], [], [1], [2], [3]] 3 (Num 24000) 1 16 =
     Inr [ascii ''RIFF'' @ u32le 39 @ ascii ''WAVEfmt ''
          @ [16, 0, 0, 0, 1, 0, 1, 0, 192, 93, 0, 0, 128, 187, 0, 0, 2, 0, 16, 0]
          @ ascii ''data'' @ u32le 3, [1], [2], [3]]
   \<and> map_sum id concat (prependWavHeader [[1], [2], [3]] 3 (Num 24000) 1 16)
     = map_sum id concat (prependWavHeader [[1, 2, 3]] 3 (Num 24000) 1 16)"
proof -
  have h: "getWavHeader 3 (Num 24000) 1 16 =
     Inr (ascii ''RIFF'' @ u32le 39 @ ascii ''WAVEfmt ''
          @ [16, 0, 0, 0, 1, 0, 1, 0, 192, 93, 0, 0, 128, 187, 0, 0, 2, 0, 16, 0]
          @ ascii ''data'' @ u32le 3)"
    using getWavHeader_24000 [of 3] by simp
  have ne: "[[1], [2], [3 :: byte]] \<noteq> []" and ne': "[[1, 2, 3 :: byte]] \<noteq> []"
    by simp_all
  have eq: "concat [[1], [2], [3 :: byte]] = concat [[1, 2, 3]]" by simp
  show ?thesis
    using prependWavHeader_header_once [OF h ne ne' eq, of 2]
    by (simp add: numeral_2_eq_2)
qed

subsection \<open>Sample conversion\<close>

lemma length_fill_pcmBuffer: "length (fill_pcmBuffer xs) = length xs"
  by (induction xs) simp_all


lemma nth_fill_pcmBuffer:
  "i < length xs \<Longrightarrow>
   fill_pcmBuffer xs ! i = store_Int16 (Math_round (times_32767 (xs ! i)))"
  by (induction xs arbitrary: i) (auto simp: nth_Cons split: nat.splits)

lemma sint_store_Int16:
  "sint (store_Int16 (Num n)) = (n + 32768) mod 65536 - 32768"
  by (simp add: store_Int16_def int_word_sint)

lemma round_in_range:
  fixes q :: rat
  assumes "- 1 \<le> q" and "q \<le> 1"
  shows "- 32767 \<le> \<lfloor>q * 32767 + 1 / 2\<rfloor>" and "\<lfloor>q * 32767 + 1 / 2\<rfloor> \<le> 32767"
proof -
  have "- 32767 \<le> q * 32767" using assms(1) by simp
  then show "- 32767 \<le> \<lfloor>q * 32767 + 1 / 2\<rfloor>" by (simp add: le_floor_iff)
  have "q * 32767 \<le> 32767" using assms(2) by simp
  then show "\<lfloor>q * 32767 + 1 / 2\<rfloor> \<le> 32767" by (simp add: floor_le_iff)
qed

lemma nth_Int16Array_buffer:
  "i < length ws \<Longrightarrow>
   Int16Array_buffer ws ! (2 * i) = ucast (ws ! i)
   \<and> Int16Array_buffer ws ! (2 * i + 1) = ucast (drop_bit 8 (ws ! i))"
proof (induction ws arbitrary: i)
  case Nil
  then show ?case by simp
next
  case (Cons w ws)
  show ?case
  proof (cases i)
    case 0
    then show ?thesis by simp
  next
    case (Suc j)
    then have "j < length ws" using Cons.prems by simp
    from Cons.IH [OF this] show ?thesis using Suc by simp
  qed
qed

text \<open>
  C2, as stated, fails. On the three samples \<open>0.5\<close>, \<open>-1.0\<close> and \<open>1.2\<close> (as a 32-bit
  float: \<open>10066330 / 2 ^ 23\<close>) the conversion stores \<open>16384\<close>, \<open>-32767\<close> and
  \<open>-26216\<close>, not \<open>16383\<close>, \<open>-32768\<close> and \<open>32767\<close>: a tie rounds upward, the scale is
  \<open>32767\<close> on both sides, and \<open>39320\<close> does not fit and wraps around.
\<close>

theorem fill_pcmBuffer_clamps_counterexample:
  "map sint (fill_pcmBuffer [Finite (1 / 2), Finite (- 1), Finite (10066330 / 8388608)])
     = [16384, - 32767, - 26216]
   \<and> map sint (fill_pcmBuffer [Finite (1 / 2), Finite (- 1), Finite (10066330 / 8388608)])
     \<noteq> [16383, - 32768, 32767]
   \<and> Int16Array_buffer
       (fill_pcmBuffer [Finite (1 / 2), Finite (- 1), Finite (10066330 / 8388608)])
     = [0, 64, 1, 128, 152, 153]"
  by code_simp

text \<open>
  C2, amended. Each finite sample \<open>q\<close> is stored as the nearest integer to
  \<open>q * 32767\<close> (a tie going up) reduced modulo \<open>2 ^ 16\<close> into the signed 16-bit range.
  For \<open>-1 \<le> q \<le> 1\<close> that is the rounded value itself, \<open>1.0\<close> gives \<open>32767\<close> and
  \<open>-1.0\<close> gives \<open>-32767\<close>; nothing is clamped. The two bytes of a sample are its low
  byte and then its high byte.
\<close>

theorem fill_pcmBuffer_rounds_and_wraps:
  assumes "i < length floatArray" and "floatArray ! i = Finite q"
  shows "sint (fill_pcmBuffer floatArray ! i)
           = (\<lfloor>q * 32767 + 1 / 2\<rfloor> + 32768) mod 65536 - 32768
         \<and> (- 1 \<le> q \<and> q \<le> 1 \<longrightarrow>
              sint (fill_pcmBuffer floatArray ! i) = \<lfloor>q * 32767 + 1 / 2\<rfloor>)
         \<and> (q = 1 \<longrightarrow> sint (fill_pcmBuffer floatArray ! i) = 32767)
         \<and> (q = - 1 \<longrightarrow> sint (fill_pcmBuffer floatArray ! i) = - 32767)
         \<and> Int16Array_buffer (fill_pcmBuffer floatArray) ! (2 * i)
             = ucast (fill_pcmBuffer floatArray ! i)
         \<and> Int16Array_buffer (fill_pcmBuffer floatArray) ! (2 * i + 1)
             = ucast (drop_bit 8 (fill_pcmBuffer floatArray ! i))"
proof -
  let ?n = "\<lfloor>q * 32767 + 1 / 2\<rfloor>"
  have s: "sint (fill_pcmBuffer floatArray ! i) = (?n + 32768) mod 65536 - 32768"
    using assms
    by (simp add: nth_fill_pcmBuffer times_32767_def Math_round_def sint_store_Int16)
  have r: "sint (fill_pcmBuffer floatArray ! i) = ?n" if "- 1 \<le> q" and "q \<le> 1"
  proof -
    define n where "n = ?n"
    have "- 32767 \<le> n" and "n \<le> 32767"
      unfolding n_def by (rule round_in_range [OF that])+
    then have "(n + 32768) mod 65536 - 32768 = n" by simp
    then show ?thesis using s by (simp add: n_def)
  qed
  have one: "\<lfloor>(1::rat) * 32767 + 1 / 2\<rfloor> = 32767" by (simp add: floor_eq_iff)
  have mone: "\<lfloor>(- 1::rat) * 32767 + 1 / 2\<rfloor> = - 32767" by (simp add: floor_eq_iff)
  have "i < length (fill_pcmBuffer floatArray)"
    using assms(1) by (simp add: length_fill_pcmBuffer)
  note b = nth_Int16Array_buffer [OF this]
  show ?thesis
    using s r one mone b by simp
qed

theorem fill_pcmBuffer_rounds_and_wraps_witness:
  "sint (fill_pcmBuffer [Finite (1 / 2), Finite (- 1), Finite (10066330 / 8388608)] ! 2)
     = - 26216
   \<and> sint (fill_pcmBuffer [Finite (1 / 2), Finite (- 1), Finite (10066330 / 8388608)] ! 0)
     = 16384"
proof -
  have f2: "\<lfloor>(10066330 / 8388608 :: rat) * 32767 + 1 / 2\<rfloor> = 39320"
    by (simp add: floor_eq_iff)
  have f0: "\<lfloor>(1 / 2 :: rat) * 32767 + 1 / 2\<rfloor> = 16384"
    by (simp add: floor_eq_iff)
  show ?thesis
    using fill_pcmBuffer_rounds_and_wraps
            [of 2 "[Finite (1 / 2), Finite (- 1), Finite (10066330 / 8388608)]"
                "10066330 / 8388608"]
      fill_pcmBuffer_rounds_and_wraps
            [of 0 "[Finite (1 / 2), Finite (- 1), Finite (10066330 / 8388608)]" "1 / 2"]
      f2 f0
    by simp
qed

subsection \<open>Local adapter\<close>




subsection \<open>Remote adapter\<close>







lemma isl_prependWavHeader:
  "isl (prependWavHeader readable l r c b) = isl (getWavHeader l r c b)"
  by (simp add: prependWavHeader_def split: sum.splits)

text \<open>
  C7, as stated, fails: when configuration validation throws, the remote adapter fails
  although the transport would have answered with a success status and did not throw.
\<close>

theorem textToSpeech_fails_iff_http_counterexample:
  "fst (textToSpeech (example_env (Some (Thrown ''invalid configuration'')) (Inr (resp200 [1, 2])) flaky)
          (example_runtime [(''ELEVENLABS_XI_API_KEY'', ''k'')]) ''hello'' trace0)
     = Inl (Thrown ''invalid configuration'')
   \<and> fetch (example_env (Some (Thrown ''invalid configuration'')) (Inr (resp200 [1, 2])) flaky) 0
        (build_request (example_runtime [(''ELEVENLABS_XI_API_KEY'', ''k'')]) ''hello'')
     = Inr (resp200 [1, 2])
   \<and> ok (resp200 [1, 2])"
  by (simp add: ev)

text \<open>
  C7, amended. The remote adapter fails exactly when configuration validation throws,
  the transport throws, the response has a non-success status, or, after a successful
  response, the output format setting is absent or is a \<^verbatim>\<open>pcm_\<close> tag for whose rate no
  header can be built. On a non-success status the error message carries the status
  code and the response body text; a transport error is passed on as it is; and the
  adapter calls the transport at most once.
\<close>

theorem textToSpeech_failure_conditions:
  "isl (fst (textToSpeech env runtime txt tr)) =
     (validateNodeConfig env runtime \<noteq> None
      \<or> (case fetch env (fetch_calls tr) (build_request runtime txt) of
            Inl e \<Rightarrow> True
          | Inr response \<Rightarrow>
              \<not> ok response
              \<or> (case getSetting runtime ''ELEVENLABS_OUTPUT_FORMAT'' of
                    None \<Rightarrow> True
                  | Some outputFormat \<Rightarrow>
                      startsWith outputFormat ''pcm_''
                      \<and> isl (getWavHeader (length (arrayBuffer response))
                                (parseInt (substring 4 outputFormat)) 1 16))))
   \<and> (validateNodeConfig env runtime = None
        \<and> fetch env (fetch_calls tr) (build_request runtime txt) = Inr response
        \<and> \<not> ok response \<longrightarrow>
          fst (textToSpeech env runtime txt tr)
            = Inl (Error (''Received status '' @ string_of_nat (status response)
                          @ '' from Eleven Labs API: '' @ body_text response)))
   \<and> (validateNodeConfig env runtime = None
        \<and> fetch env (fetch_calls tr) (build_request runtime txt) = Inl e \<longrightarrow>
          fst (textToSpeech env runtime txt tr) = Inl e)
   \<and> fetch_calls (snd (textToSpeech env runtime txt tr))
       = (if validateNodeConfig env runtime = None then Suc (fetch_calls tr) else fetch_calls tr)"
proof -
  have a: "isl (on_response runtime response) =
             (\<not> ok response
              \<or> (case getSetting runtime ''ELEVENLABS_OUTPUT_FORMAT'' of
                    None \<Rightarrow> True
                  | Some outputFormat \<Rightarrow>
                      startsWith outputFormat ''pcm_''
                      \<and> isl (getWavHeader (length (arrayBuffer response))
                                (parseInt (substring 4 outputFormat)) 1 16)))" for response
    by (simp add: on_response_def Let_def isl_prependWavHeader split: option.splits)
  have b: "fst (textToSpeech env runtime txt tr) =
             (case validateNodeConfig env runtime of
                Some e \<Rightarrow> Inl e
              | None \<Rightarrow>
                  (case fetch env (fetch_calls tr) (build_request runtime txt) of
                     Inl e \<Rightarrow> Inl e
                   | Inr response \<Rightarrow> on_response runtime response))"
    by (simp add: textToSpeech_def Let_def split: option.splits sum.splits)
  have c: "fetch_calls (snd (textToSpeech env runtime txt tr))
       = (if validateNodeConfig env runtime = None then Suc (fetch_calls tr) else fetch_calls tr)"
    by (simp add: textToSpeech_def Let_def log_error_def split: option.splits sum.splits)
  have d: "isl (fst (textToSpeech env runtime txt tr)) =
     (validateNodeConfig env runtime \<noteq> None
      \<or> (case fetch env (fetch_calls tr) (build_request runtime txt) of
            Inl e \<Rightarrow> True
          | Inr response \<Rightarrow> isl (on_response runtime response)))"
    unfolding b by (simp split: option.splits sum.splits)
  have e: "fst (textToSpeech env runtime txt tr)
            = Inl (Error (''Received status '' @ string_of_nat (status response)
                          @ '' from Eleven Labs API: '' @ body_text response))"
    if "validateNodeConfig env runtime = None"
      and "fetch env (fetch_calls tr) (build_request runtime txt) = Inr response"
      and "\<not> ok response"
    unfolding b using that by (simp add: on_response_def)
  have f: "fst (textToSpeech env runtime txt tr) = Inl e"
    if "validateNodeConfig env runtime = None"
      and "fetch env (fetch_calls tr) (build_request runtime txt) = Inl e"
    unfolding b using that by simp
  show ?thesis
    unfolding d using c e f by (simp add: a cong: sum.case_cong)
qed

theorem textToSpeech_failure_conditions_witness:
  "fst (textToSpeech (example_env None (Inr resp401) flaky) (example_runtime [(''ELEVENLABS_XI_API_KEY'', ''k'')]) ''hello'' trace0)
     = Inl (Error ''Received status 401 from Eleven Labs API: unauthorized'')
   \<and> fetch_calls (snd (textToSpeech (example_env None (Inr resp401) flaky) (example_runtime [(''ELEVENLABS_XI_API_KEY'', ''k'')]) ''hello'' trace0)) = 1"
proof -
  let ?env = "example_env None (Inr resp401) flaky"
  let ?rt = "example_runtime [(''ELEVENLABS_XI_API_KEY'', ''k'')]"
  have v: "validateNodeConfig ?env ?rt = None" by (simp add: ev)
  have f: "fetch ?env (fetch_calls trace0) (build_request ?rt ''hello'') = Inr resp401"
    by (simp add: example_env_def)
  have k: "\<not> ok resp401" "status resp401 = 401" "body_text resp401 = ''unauthorized''" by (simp_all add: resp401_def)
  have s: "string_of_nat 401 = ''401''" by (simp add: string_of_nat.simps)
  show ?thesis
    using textToSpeech_failure_conditions [of ?env ?rt "''hello''" trace0 resp401] v f k s
    by (simp add: trace0_def)
qed

subsection \<open>Selector\<close>

lemma generateVitsAudio_fst:
  "local_calls tr' = local_calls tr \<Longrightarrow>
   fst (generateVitsAudio env runtime txt tr') = fst (generateVitsAudio env runtime txt tr)"
  by (simp add: generateVitsAudio_def Let_def split: sum.splits)

lemma generateVitsAudio_snd:
  "snd (generateVitsAudio env runtime txt tr) = tr\<lparr>local_calls := Suc (local_calls tr)\<rparr>"
  by (simp add: generateVitsAudio_def Let_def split: sum.splits)

lemma textToSpeech_local_calls:
  "local_calls (snd (textToSpeech env runtime txt tr)) = local_calls tr"
  by (simp add: textToSpeech_def log_error_def Let_def split: option.splits sum.splits)

lemma textToSpeech_remote_calls:
  "remote_calls (snd (textToSpeech env runtime txt tr)) = Suc (remote_calls tr)"
  by (simp add: textToSpeech_def log_error_def Let_def split: option.splits sum.splits)

lemma useVits_iff:
  "useVits (getVoiceSettings runtime) = (\<not> truthy (getSetting runtime ''ELEVENLABS_XI_API_KEY''))"
  by (simp add: getVoiceSettings_def)

lemma truthy_iff: "truthy v = (\<exists>k. v = Some k \<and> k \<noteq> [])"
  by (cases v) (simp_all add: truthy_def)

lemma generate_remote:
  assumes "truthy (getSetting runtime ''ELEVENLABS_XI_API_KEY'')"
  shows "generate env runtime txt tr =
     (case fst (textToSpeech env runtime txt tr) of
        Inr stream \<Rightarrow> textToSpeech env runtime txt tr
      | Inl e \<Rightarrow> generateVitsAudio env runtime txt
               (log_error ''Falling back to VITS due to error:'' e
                  (log_error ''Speech generation error:'' e (snd (textToSpeech env runtime txt tr)))))"
  using assms by (simp add: generate_def useVits_iff Let_def)

lemma generate_local:
  assumes "\<not> truthy (getSetting runtime ''ELEVENLABS_XI_API_KEY'')"
  shows "generate env runtime txt tr =
     (case fst (generateVitsAudio env runtime txt tr) of
        Inr stream \<Rightarrow> generateVitsAudio env runtime txt tr
      | Inl e \<Rightarrow> generateVitsAudio env runtime txt
               (log_error ''Falling back to VITS due to error:'' e
                  (log_error ''Speech generation error:'' e (snd (generateVitsAudio env runtime txt tr)))))"
  using assms by (simp add: generate_def useVits_iff Let_def)

text \<open>
  C1. When the API key is configured and the remote adapter fails, whatever the reason,
  the call's outcome is the local adapter's outcome: its stream if it succeeds, its
  error if it fails too. The remote error is written to the log; the remote adapter
  and the local adapter have each been invoked once.
\<close>

theorem generate_falls_back_to_local:
  assumes "truthy (getSetting runtime ''ELEVENLABS_XI_API_KEY'')"
    and "fst (textToSpeech env runtime txt tr) = Inl e"
  shows "fst (generate env runtime txt tr) = fst (generateVitsAudio env runtime txt tr)
         \<and> (''Falling back to VITS due to error:'', e)
             \<in> set (error_log (snd (generate env runtime txt tr)))
         \<and> remote_calls (snd (generate env runtime txt tr)) = Suc (remote_calls tr)
         \<and> local_calls (snd (generate env runtime txt tr)) = Suc (local_calls tr)"
proof -
  let ?tr1 = "log_error ''Falling back to VITS due to error:'' e
                (log_error ''Speech generation error:'' e (snd (textToSpeech env runtime txt tr)))"
  have g: "generate env runtime txt tr = generateVitsAudio env runtime txt ?tr1"
    using assms by (simp add: generate_remote)
  have l: "local_calls ?tr1 = local_calls tr"
    by (simp add: log_error_def textToSpeech_local_calls)
  have r: "remote_calls ?tr1 = Suc (remote_calls tr)"
    by (simp add: log_error_def textToSpeech_remote_calls)
  have "fst (generate env runtime txt tr) = fst (generateVitsAudio env runtime txt tr)"
    using g generateVitsAudio_fst [OF l] by simp
  moreover have "snd (generate env runtime txt tr) = ?tr1\<lparr>local_calls := Suc (local_calls ?tr1)\<rparr>"
    using g by (simp add: generateVitsAudio_snd)
  ultimately show ?thesis using l r by (simp add: log_error_def)
qed

theorem generate_falls_back_to_local_witness:
  "fst (generate (example_env None (Inr resp401) (\<lambda>_. Inr (Buffer [82, 73, 70, 70])))
          (example_runtime [(''ELEVENLABS_XI_API_KEY'', ''k'')]) ''hello'' trace0)
     = Inr [[82, 73, 70, 70]]
   \<and> (''Falling back to VITS due to error:'',
        Error ''Received status 401 from Eleven Labs API: unauthorized'')
       \<in> set (error_log (snd (generate (example_env None (Inr resp401) (\<lambda>_. Inr (Buffer [82, 73, 70, 70])))
          (example_runtime [(''ELEVENLABS_XI_API_KEY'', ''k'')]) ''hello'' trace0)))"
proof -
  let ?env = "example_env None (Inr resp401) (\<lambda>_. Inr (Buffer [82, 73, 70, 70]))"
  let ?rt = "example_runtime [(''ELEVENLABS_XI_API_KEY'', ''k'')]"
  have key: "truthy (getSetting ?rt ''ELEVENLABS_XI_API_KEY'')"
    by (simp add: ev)
  have fail: "fst (textToSpeech ?env ?rt ''hello'' trace0)
                = Inl (Error ''Received status 401 from Eleven Labs API: unauthorized'')"
    by (simp add: ev)
  have loc: "fst (generateVitsAudio ?env ?rt ''hello'' trace0) = Inr [[82, 73, 70, 70]]"
    by (simp add: ev)
  show ?thesis using generate_falls_back_to_local [OF key fail] loc by simp
qed

text \<open>
  C6, as stated, fails: without an API key, a failure of the local adapter is caught
  like any other and the local adapter is invoked a second time. Here the first engine
  call fails and the second succeeds, so the caller gets a stream, after two attempts.
\<close>

theorem generate_local_failure_final_counterexample:
  "fst (generateVitsAudio (example_env None (Inr resp401) flaky) (example_runtime []) ''hello'' trace0)
     = Inl (Thrown ''engine failure'')
   \<and> fst (generate (example_env None (Inr resp401) flaky) (example_runtime []) ''hello'' trace0)
     = Inr [[1, 2, 3]]
   \<and> local_calls (snd (generate (example_env None (Inr resp401) flaky) (example_runtime []) ''hello'' trace0)) = 2"
  by (simp add: generate_def flaky_def ev)

text \<open>
  C6, amended. Without an API key the remote adapter and the transport are never
  invoked and the local adapter is invoked directly. If that attempt succeeds its
  stream is returned; if it fails, the local adapter is invoked exactly once more and
  the outcome of that second attempt, stream or error, is the outcome of the call.
  The error of the first attempt is written to the error log, twice (once by each of
  the two logging calls of the handler), before the second attempt; a first attempt
  that succeeds logs nothing.
\<close>

theorem generate_without_credentials:
  assumes "\<not> truthy (getSetting runtime ''ELEVENLABS_XI_API_KEY'')"
  shows "remote_calls (snd (generate env runtime txt tr)) = remote_calls tr
         \<and> fetch_calls (snd (generate env runtime txt tr)) = fetch_calls tr
         \<and> (\<forall>s. fst (generateVitsAudio env runtime txt tr) = Inr s \<longrightarrow>
                fst (generate env runtime txt tr) = Inr s
                \<and> local_calls (snd (generate env runtime txt tr)) = local_calls tr + 1
                \<and> error_log (snd (generate env runtime txt tr)) = error_log tr)
         \<and> (\<forall>e. fst (generateVitsAudio env runtime txt tr) = Inl e \<longrightarrow>
                fst (generate env runtime txt tr)
                  = fst (generateVitsAudio env runtime txt (tr\<lparr>local_calls := Suc (local_calls tr)\<rparr>))
                \<and> local_calls (snd (generate env runtime txt tr)) = local_calls tr + 2
                \<and> error_log (snd (generate env runtime txt tr))
                  = error_log tr @ [(''Speech generation error:'', e),
                                    (''Falling back to VITS due to error:'', e)])"
proof -
  have ok: "generate env runtime txt tr = generateVitsAudio env runtime txt tr"
    if "fst (generateVitsAudio env runtime txt tr) = Inr s" for s
    using that assms by (simp add: generate_local)
  have bad: "generate env runtime txt tr = generateVitsAudio env runtime txt
               (log_error ''Falling back to VITS due to error:'' e
                  (log_error ''Speech generation error:'' e (snd (generateVitsAudio env runtime txt tr))))"
    if "fst (generateVitsAudio env runtime txt tr) = Inl e" for e
    using that assms by (simp add: generate_local)
  show ?thesis
  proof (cases "fst (generateVitsAudio env runtime txt tr)")
    case (Inr s)
    then show ?thesis using ok [OF Inr] by (simp add: generateVitsAudio_snd)
  next
    case (Inl e)
    let ?tr1 = "log_error ''Falling back to VITS due to error:'' e
                  (log_error ''Speech generation error:'' e (snd (generateVitsAudio env runtime txt tr)))"
    have "local_calls ?tr1 = local_calls (tr\<lparr>local_calls := Suc (local_calls tr)\<rparr>)"
      by (simp add: log_error_def generateVitsAudio_snd)
    from generateVitsAudio_fst [OF this]
    show ?thesis using Inl bad [OF Inl]
      by (simp add: generateVitsAudio_snd log_error_def)
  qed
qed

theorem generate_without_credentials_witness:
  "fst (generate (example_env None (Inr resp401) (\<lambda>_. Inl (Thrown ''engine failure''))) (example_runtime []) ''hello'' trace0)
     = Inl (Thrown ''engine failure'')
   \<and> local_calls (snd (generate (example_env None (Inr resp401) (\<lambda>_. Inl (Thrown ''engine failure''))) (example_runtime []) ''hello'' trace0)) = 2
   \<and> remote_calls (snd (generate (example_env None (Inr resp401) (\<lambda>_. Inl (Thrown ''engine failure''))) (example_runtime []) ''hello'' trace0)) = 0
   \<and> error_log (snd (generate (example_env None (Inr resp401) (\<lambda>_. Inl (Thrown ''engine failure''))) (example_runtime []) ''hello'' trace0))
     = [(''Speech generation error:'', Thrown ''engine failure''),
        (''Falling back to VITS due to error:'', Thrown ''engine failure'')]"
proof -
  let ?env = "example_env None (Inr resp401) (\<lambda>_. Inl (Thrown ''engine failure''))"
  let ?rt = "example_runtime []"
  have key: "\<not> truthy (getSetting ?rt ''ELEVENLABS_XI_API_KEY'')"
    by (simp add: ev)
  have l1: "fst (generateVitsAudio ?env ?rt ''hello'' trace0) = Inl (Thrown ''engine failure'')"
    by (simp add: ev)
  have l2: "fst (generateVitsAudio ?env ?rt ''hello'' (trace0\<lparr>local_calls := Suc (local_calls trace0)\<rparr>)) = Inl (Thrown ''engine failure'')"
    by (simp add: ev)
  show ?thesis using generate_without_credentials [OF key, of ?env "''hello''" trace0] l1 l2 by (simp add: trace0_def)
qed

text \<open>
  C9. The remote provider is preferred (\<^verbatim>\<open>useVits\<close> is false) exactly when the API key
  setting is present, that is, set to a non-empty string. The preference is derived
  from the runtime of the call at hand: whatever the trace of earlier calls, a call
  invokes the remote adapter once if the key is present in its runtime and not at all
  otherwise.
\<close>

theorem preferRemote_iff_api_key:
  "(\<not> useVits (getVoiceSettings runtime))
     = (\<exists>k. getSetting runtime ''ELEVENLABS_XI_API_KEY'' = Some k \<and> k \<noteq> [])
   \<and> remote_calls (snd (generate env runtime txt tr))
     = remote_calls tr
       + (if \<exists>k. getSetting runtime ''ELEVENLABS_XI_API_KEY'' = Some k \<and> k \<noteq> [] then 1 else 0)"
proof -
  have "remote_calls (snd (generate env runtime txt tr)) = Suc (remote_calls tr)"
    if "truthy (getSetting runtime ''ELEVENLABS_XI_API_KEY'')"
    using that
    by (simp add: generate_remote generateVitsAudio_snd log_error_def textToSpeech_remote_calls
             split: sum.splits)
  moreover have "remote_calls (snd (generate env runtime txt tr)) = remote_calls tr"
    if "\<not> truthy (getSetting runtime ''ELEVENLABS_XI_API_KEY'')"
    using that
    by (simp add: generate_local generateVitsAudio_snd log_error_def split: sum.splits)
  ultimately show ?thesis
    by (simp add: useVits_iff truthy_iff [symmetric])
qed

theorem preferRemote_iff_api_key_witness:
  "\<not> useVits (getVoiceSettings (example_runtime [(''ELEVENLABS_XI_API_KEY'', ''k'')]))
   \<and> useVits (getVoiceSettings (example_runtime []))
   \<and> remote_calls (snd (generate (example_env None (Inr resp401) flaky) (example_runtime []) ''again''
        (snd (generate (example_env None (Inr resp401) flaky) (example_runtime [(''ELEVENLABS_XI_API_KEY'', ''k'')]) ''hello'' trace0)))) = 1"
proof -
  let ?env = "example_env None (Inr resp401) flaky"
  have a: "getSetting (example_runtime [(''ELEVENLABS_XI_API_KEY'', ''k'')]) ''ELEVENLABS_XI_API_KEY'' = Some ''k''"
    by (simp add: ev)
  have b: "getSetting (example_runtime []) ''ELEVENLABS_XI_API_KEY'' = None"
    by (simp add: ev)
  show ?thesis
    using preferRemote_iff_api_key [of "example_runtime [(''ELEVENLABS_XI_API_KEY'', ''k'')]" ?env "''hello''" trace0]
      preferRemote_iff_api_key [of "example_runtime []" ?env "''again''"
            "snd (generate ?env (example_runtime [(''ELEVENLABS_XI_API_KEY'', ''k'')]) ''hello'' trace0)"]
    by (simp add: a b trace0_def)
qed

end
